theory Spec2Isabelle
  imports Complex_Main
begin

section \<open>Data model of the dive planner notes (core/plannernotes.c)\<close>

text \<open>
  The structures are those the source reads and writes.  Nested C fields are flattened
  into one name (\<open>depth.mm\<close> is \<open>depth_mm\<close>, \<open>type.size.mliter\<close> is
  \<open>type_size_mliter\<close>, \<open>dc.divemode\<close> is \<open>dc_divemode\<close>).  C \<open>int\<close> values are
  modelled by \<open>int\<close>: depths, times, pressures and permille fractions stay far below
  the 32-bit range.  C \<open>double\<close> values are modelled by \<open>real\<close>.  The fixed array
  \<open>dive->cylinder\<close> is a function from the index to the cylinder; an index outside
  the array is not modelled.  The enumerations are declared in headers outside the
  sources at hand; the model names the values the sources use (\<open>OC_GAS\<close>, \<open>OC\<close>,
  \<open>CCR\<close>, \<open>FREEDIVE\<close>, \<open>BUEHLMANN\<close>, \<open>RECREATIONAL\<close>, \<open>VPMB\<close>) and
  one value for the others.
\<close>

record gasmix =
  o2 :: int
  he :: int

record divedatapoint =
  time :: int
  depth_mm :: int
  cylinderid :: int
  minimum_gas_mbar :: int
  setpoint :: int
  entered :: bool

datatype cylinder_use_type = OC_GAS | OTHER_USE

record cylinder_t =
  type_size_mliter :: int
  gasmix :: gasmix
  start_mbar :: int
  end_mbar :: int
  gas_used_mliter :: int
  deco_gas_used_mliter :: int
  cylinder_use :: cylinder_use_type

datatype divemode_t = OC | CCR | FREEDIVE | OTHER_MODE

datatype deco_mode = BUEHLMANN | RECREATIONAL | VPMB

record diveplan =
  dp :: "divedatapoint list"
  surface_interval :: int
  surface_pressure :: int
  gflow :: int
  gfhigh :: int
  vpmb_conservatism :: int
  eff_gflow :: int
  eff_gfhigh :: int

record preferences =
  verbatim_plan :: bool
  display_runtime :: bool
  display_duration :: bool
  display_transitions :: bool
  display_variations :: bool
  sacfactor :: int
  problemsolvingtime :: int
  bottomsac :: int
  decosac :: int
  bottompo2 :: int
  decopo2 :: int

record icd_data =
  dN2 :: int
  dHe :: int

subsection \<open>The rendered notes\<close>

text \<open>
  The source prints HTML into one buffer.  The model keeps what is printed as
  structured rows: every \<open>snprintf\<close> that appends to the buffer appends a value
  here, holding the arguments of the format string.  Message texts are the strings
  the source passes to \<open>translate\<close>.
\<close>

record icd_entry =
  icd_runtime_min :: int
  icd_gas_from :: gasmix
  icd_gas_to :: gasmix
  icd_dHe_percent :: real
  icd_dN2_colour :: string
  icd_dN2_percent :: real
  icd_max_dN2_percent :: real
  icd_dHe_bar :: real
  icd_dN2_bar :: real
  icd_max_dN2_bar :: real

datatype segmentsymbol = Ascent_Symbol | Descent_Symbol | Entered_Symbol | Deco_Stop_Symbol

datatype gas_cell = Gas_Cell gasmix "int option" | Blank_Cell

datatype plan_line =
    Transition_Line real int int gasmix int
  | Stay_Line real int int gasmix int
  | Switch_Gas_Line gasmix int
  | Leg_Row segmentsymbol real "int option" "int option" gas_cell

record mingas_figure =
  mg_colour :: string
  mg_sacfactor :: real
  mg_problemsolvingtime :: int
  mg_depth :: real
  mg_volume :: real
  mg_pressure :: real
  mg_delta_colour :: string
  mg_delta_pressure :: real

datatype consumption_text =
    Volume_Pressure_Ascent real real gasmix real real
  | Volume_Pressure real real gasmix
  | Volume_Ascent real gasmix real
  | Volume_Only real gasmix

record consumption_row =
  cr_text :: consumption_text
  cr_warning :: string
  cr_mingas :: "mingas_figure option"

datatype po2_warning =
    High_pO2 real int gasmix real
  | Low_pO2 real int gasmix real

datatype banner =
    Overlapping_Banner string
  | Created_Banner string string
  | Surface_Interval_Banner string int string

datatype buffer_state = Intact | Cut | Overrun

datatype deco_line =
    Buehlmann_Line int int
  | VPMB_Line int "(int \<times> int) option"
  | Recreational_Line int int

record report =
  r_disclaimer :: "string option"
  r_banner :: banner
  r_runtime_min :: int
  r_variations :: bool
  r_lines :: "plan_line list"
  r_cns :: int
  r_otu :: int
  r_deco_line :: deco_line
  r_atm_pressure :: "int \<times> int"
  r_sac :: "(real \<times> real) option"
  r_consumption :: "consumption_row list"
  r_icd :: "(icd_entry list \<times> bool) option"
  r_icd_buffer :: buffer_state
  r_po2_warnings :: "po2_warning list"

datatype plan_notes =
    Aborted_Notes string
  | Overlapping_Notes "string option" banner
  | Report_Notes report

record dive =
  cylinder :: "int \<Rightarrow> cylinder_t"
  dc_divemode :: divemode_t
  dive_notes :: "plan_notes option"
  cns :: int
  maxcns :: int
  otu :: int

text \<open>
  The process-wide state the function touches: the \<open>static char buf[1000]\<close> of
  \<open>add_plan_to_notes\<close> and the global \<open>disclaimer\<close> pointer, which the function
  points at \<open>buf\<close> (modelled by the text it then points to).
\<close>

record globals =
  static_buf :: string
  disclaimer :: string

subsection \<open>Collaborators declared outside the given sources\<close>

text \<open>
  The functions below are called by \<open>plannernotes.c\<close> and defined in other files
  of the repository (gas.c, dive.c, units.c, planner.c, qthelper), which are not part
  of the sources at hand.  They are parameters of the model: every definition takes
  an environment and every theorem holds for all environments unless it says
  otherwise.  \<open>MAX_CYLINDERS\<close> is the length of the fixed cylinder array.
\<close>

record env =
  gasmix_distance :: "gasmix \<Rightarrow> gasmix \<Rightarrow> int"
  get_he :: "gasmix \<Rightarrow> int"
  gasname :: "gasmix \<Rightarrow> string"
  isobaric_counterdiffusion :: "gasmix \<Rightarrow> gasmix \<Rightarrow> bool \<times> icd_data"
  depth_to_mbar :: "int \<Rightarrow> dive \<Rightarrow> int"
  depth_to_bar :: "int \<Rightarrow> dive \<Rightarrow> real"
  depth_to_atm :: "int \<Rightarrow> dive \<Rightarrow> real"
  isothermal_pressure :: "gasmix \<Rightarrow> real \<Rightarrow> int \<Rightarrow> int \<Rightarrow> real"
  gas_compressibility_factor :: "gasmix \<Rightarrow> real \<Rightarrow> real"
  fill_pressures_o2 :: "real \<Rightarrow> gasmix \<Rightarrow> real \<Rightarrow> divemode_t \<Rightarrow> real"
  cylinder_none :: "cylinder_t \<Rightarrow> bool"
  get_depth_units :: "int \<Rightarrow> real"
  get_volume_units :: "int \<Rightarrow> real"
  get_pressure_units :: "int \<Rightarrow> real"
  update_cylinder_related_info :: "dive \<Rightarrow> dive"
  decoMode :: deco_mode
  altitude_of :: "int \<Rightarrow> int"
  get_current_date :: string
  subsurface_canonical_version :: string
  MAX_CYLINDERS :: nat

subsection \<open>C arithmetic\<close>

text \<open>Integer division of C truncates towards zero.\<close>

definition c_div :: "int \<Rightarrow> int \<Rightarrow> int" where
  "c_div a b = sgn a * sgn b * (\<bar>a\<bar> div \<bar>b\<bar>)"

text \<open>\<open>lrint\<close> in the default rounding mode rounds to the nearest integer, a tie to
  the even neighbour.\<close>

definition lrint :: "real \<Rightarrow> int" where
  "lrint x =
     (let f = \<lfloor>x\<rfloor>; d = x - of_int f
      in if d < 1 / 2 then f
         else if 1 / 2 < d then f + 1
         else if even f then f else f + 1)"

section \<open>diveplan_duration\<close>

fun max_time :: "divedatapoint list \<Rightarrow> int \<Rightarrow> int" where
  "max_time [] duration = duration"
| "max_time (d # ds) duration = max_time ds (if time d > duration then time d else duration)"

definition diveplan_duration :: "diveplan \<Rightarrow> int" where
  "diveplan_duration diveplan = c_div (max_time (dp diveplan) 0 + 30) 60"

section \<open>add_icd_entry\<close>

text \<open>
  One gas change of the ICD table.  The second cell of the row is printed red when
  \<open>5 * dN2 > -dHe\<close> and dark grey otherwise.
\<close>

definition add_icd_entry ::
  "icd_data \<Rightarrow> int \<Rightarrow> int \<Rightarrow> gasmix \<Rightarrow> gasmix \<Rightarrow> icd_entry" where
  "add_icd_entry icdvalues time_seconds ambientpressure_mbar gas_from gas_to =
     \<lparr> icd_runtime_min = c_div (time_seconds + 30) 60,
       icd_gas_from = gas_from,
       icd_gas_to = gas_to,
       icd_dHe_percent = of_int (dHe icdvalues) / 10,
       icd_dN2_colour = (if 5 * dN2 icdvalues > - dHe icdvalues then ''red'' else ''#383838''),
       icd_dN2_percent = of_int (dN2 icdvalues) / 10,
       icd_max_dN2_percent = 0.2 * (of_int (- dHe icdvalues) / 10),
       icd_dHe_bar = of_int (ambientpressure_mbar * dHe icdvalues) / 1000000,
       icd_dN2_bar = of_int (ambientpressure_mbar * dN2 icdvalues) / 1000000,
       icd_max_dN2_bar = of_int (ambientpressure_mbar * - dHe icdvalues) / 5000000 \<rparr>"

subsection \<open>The bytes that one row takes\<close>

text \<open>
  \<open>add_icd_entry\<close> returns the number of bytes its two \<open>snprintf\<close> calls would
  write in a buffer without end.  The number is that of the text of the row: the literal
  parts of the two format strings, \<open>%3d\<close> for the minutes, \<open>%+5.2f\<close> for each
  of the six figures, the names of the two gases, the colour (twice) and the messages
  \<open>min\<close> and \<open>bar\<close>.  \<open>translate\<close> is taken to return the message itself, as
  for every other message of the notes, and the figure that \<open>%+5.2f\<close> prints is the
  real number rounded to hundredths.
\<close>

fun decimal_digits :: "nat \<Rightarrow> nat" where
  "decimal_digits n = (if n < 10 then 1 else Suc (decimal_digits (n div 10)))"

declare decimal_digits.simps [simp del]

text \<open>\<open>%3d\<close>: the decimal digits, a minus sign for a negative number, at least three
  characters.\<close>

definition printf_3d_length :: "int \<Rightarrow> nat" where
  "printf_3d_length i = max 3 ((if i < 0 then 1 else 0) + decimal_digits (nat \<bar>i\<bar>))"

text \<open>\<open>%+5.2f\<close>: the sign, the digits before the point, the point and two digits
  after it, at least five characters.\<close>

definition printf_f_length :: "real \<Rightarrow> nat" where
  "printf_f_length x = max 5 (1 + decimal_digits (nat (lrint (\<bar>x\<bar> * 100) div 100)) + 3)"

text \<open>The return values of the first and of the second \<open>snprintf\<close> of
  \<open>add_icd_entry\<close> (lines 45 to 48 and 49 to 60) for the row it prints.\<close>

definition add_icd_entry_length :: "env \<Rightarrow> icd_entry \<Rightarrow> int \<times> int" where
  "add_icd_entry_length E row =
     (int (length ''<tr><td rowspan='2' style= 'vertical-align:top;'>''
           + printf_3d_length (icd_runtime_min row) + length ''min''
           + length ''</td><td rowspan=2 style= 'vertical-align:top;'>''
           + length (gasname E (icd_gas_from row)) + length ''&#10137;''),
      int (length (gasname E (icd_gas_to row))
           + length ''</td><td style='padding-left: 10px;'>''
           + printf_f_length (icd_dHe_percent row)
           + length ''%</td><td style= 'padding-left: 15px; color:''
           + length (icd_dN2_colour row) + length '';'>''
           + printf_f_length (icd_dN2_percent row)
           + length ''%</td><td style='padding-left: 15px;'>''
           + printf_f_length (icd_max_dN2_percent row)
           + length ''%</td></tr><tr><td style='padding-left: 10px;'>''
           + printf_f_length (icd_dHe_bar row) + length ''bar''
           + length ''</td><td style='padding-left: 15px; color:''
           + length (icd_dN2_colour row) + length '';'>''
           + printf_f_length (icd_dN2_bar row) + length ''bar''
           + length ''</td><td style='padding-left: 15px;'>''
           + printf_f_length (icd_max_dN2_bar row) + length ''bar''
           + length ''</td></tr>''))"

section \<open>add_plan_to_notes: the ICD buffer\<close>

text \<open>
  The ICD table is printed into \<open>icdbuffer\<close>, a block of \<open>sz_icdbuf\<close> bytes, at
  the offset \<open>icdlen\<close>.  Every write is \<open>snprintf (icdbuffer + icdlen,
  sz_icdbuf - icdlen, ...)\<close> and adds to \<open>icdlen\<close> what \<open>snprintf\<close> returns, which
  is the length of the whole text also when the text was cut at the end of the block.
  The difference \<open>sz_icdbuf - icdlen\<close> is unsigned: once \<open>icdlen\<close> is beyond
  \<open>sz_icdbuf\<close> the next write starts outside the block and has no bound.
\<close>

definition sz_icdbuf :: int where
  "sz_icdbuf = 10000"

text \<open>The loop of lines 167 to 185: is there an open-circuit cylinder with helium?
  If so, the head of the table goes into the buffer (lines 171 to 182).\<close>

definition istrimix_of :: "env \<Rightarrow> dive \<Rightarrow> bool" where
  "istrimix_of E dive =
     list_ex (\<lambda>icyl. cylinder_use (cylinder dive (int icyl)) = OC_GAS
                      \<and> get_he E (gasmix (cylinder dive (int icyl))) > 0)
       [0 ..< MAX_CYLINDERS E]"

definition icd_header :: string where
  "icd_header =
     ''<div>'' @ ''Isobaric counterdiffusion information'' @ '':'' @
     ''<table><tr><td align='left'><b>'' @ ''runtime'' @ ''</b></td>'' @
     ''<td align='center'><b>'' @ ''gaschange'' @ ''</b></td>'' @
     ''<td style='padding-left: 15px;'><b>'' @ ''&#916;He'' @ ''</b></td>'' @
     ''<td style='padding-left: 20px;'><b>'' @ ''&#916;N&#8322;'' @ ''</b></td>'' @
     ''<td style='padding-left: 10px;'><b>'' @ ''max &#916;N&#8322;'' @ ''</b></td></tr>''"

text \<open>The value of \<open>icdlen\<close> when the leg loop starts.\<close>

definition icd_header_length :: "env \<Rightarrow> dive \<Rightarrow> int" where
  "icd_header_length E dive = (if istrimix_of E dive then int (length icd_header) else 0)"

section \<open>add_plan_to_notes: the leg loop\<close>

text \<open>
  A pointer into the linked list of waypoints is the list that starts at the node it
  points to: \<open>[]\<close> is \<open>NULL\<close>, \<open>d # rest\<close> points to \<open>d\<close> with
  \<open>d->next = rest\<close>.  Reading a field through \<open>NULL\<close> is the error
  \<open>Null_Pointer_Dereference\<close>.
\<close>

type_synonym dp_ptr = "divedatapoint list"

datatype error = Null_Pointer_Dereference

text \<open>
  The local variables of \<open>add_plan_to_notes\<close> that live across iterations of the
  \<open>do ... while\<close> loop, with the two output buffers.  \<open>icdbuffer\<close> holds the rows
  that are in the block whole.  \<open>icdlen_rows\<close> is what the loop has added to
  \<open>icdlen\<close>, so that \<open>icdlen\<close> itself is \<open>icdlen_of\<close> below.  \<open>icd_overrun\<close>
  says that a write has gone outside the block; what the program does from there on is
  not defined by the language, and the model only keeps the mark.
\<close>

record loop_state =
  lastdepth :: int
  lasttime :: int
  lastsetpoint :: int
  newdepth :: int
  lastprintdepth :: int
  lastprintsetpoint :: int
  lastprintgasmix :: gasmix
  lastentered :: bool
  lastbottomdp :: dp_ptr
  icdwarning :: bool
  icdbuffer :: "icd_entry list"
  icdlen_rows :: int
  icd_overrun :: bool
  buffer :: "plan_line list"

definition initial_loop_state :: loop_state where
  "initial_loop_state =
     \<lparr> lastdepth = 0, lasttime = 0, lastsetpoint = - 1, newdepth = 0, lastprintdepth = 0,
       lastprintsetpoint = - 1, lastprintgasmix = \<lparr> o2 = - 1, he = - 1 \<rparr>,
       lastentered = True, lastbottomdp = [], icdwarning = False, icdbuffer = [],
       icdlen_rows = 0, icd_overrun = False, buffer = [] \<rparr>"

definition icdlen_of :: "env \<Rightarrow> dive \<Rightarrow> loop_state \<Rightarrow> int" where
  "icdlen_of E dive st = icd_header_length E dive + icdlen_rows st"

text \<open>\<open>while (nextdp && nextdp->time == 0) nextdp = nextdp->next;\<close>\<close>

definition skip_zero_time :: "dp_ptr \<Rightarrow> dp_ptr" where
  "skip_zero_time p = dropWhile (\<lambda>d. time d = 0) p"

definition gasmix_of :: "dive \<Rightarrow> divedatapoint \<Rightarrow> gasmix" where
  "gasmix_of dive d = gasmix (cylinder dive (cylinderid d))"

text \<open>\<open>newgasmix\<close> is zero-initialised and assigned when \<open>nextdp\<close> is not \<open>NULL\<close>.\<close>

definition newgasmix_of :: "dive \<Rightarrow> dp_ptr \<Rightarrow> gasmix" where
  "newgasmix_of dive nextdp =
     (case nextdp of [] \<Rightarrow> \<lparr> o2 = 0, he = 0 \<rparr> | n # _ \<Rightarrow> gasmix_of dive n)"

definition gaschange_after_of :: "env \<Rightarrow> dive \<Rightarrow> divedatapoint \<Rightarrow> dp_ptr \<Rightarrow> bool" where
  "gaschange_after_of E dive d nextdp =
     (case nextdp of
        [] \<Rightarrow> False
      | n # _ \<Rightarrow> gasmix_distance E (gasmix_of dive d) (newgasmix_of dive nextdp) \<noteq> 0
                 \<or> setpoint d \<noteq> setpoint n)"

definition gaschange_before_of :: "env \<Rightarrow> dive \<Rightarrow> loop_state \<Rightarrow> divedatapoint \<Rightarrow> bool" where
  "gaschange_before_of E dive st d =
     (gasmix_distance E (lastprintgasmix st) (gasmix_of dive d) \<noteq> 0
      \<or> lastprintsetpoint st \<noteq> setpoint d)"

text \<open>\<open>p && d->depth.mm != p->depth.mm\<close>\<close>

definition depth_differs :: "divedatapoint \<Rightarrow> dp_ptr \<Rightarrow> bool" where
  "depth_differs d p = (case p of [] \<Rightarrow> False | n # _ \<Rightarrow> depth_mm d \<noteq> depth_mm n)"

text \<open>The first test that skips a leg (lines 207 to 213).\<close>

definition skip_uninteresting ::
  "env \<Rightarrow> dive \<Rightarrow> loop_state \<Rightarrow> divedatapoint \<Rightarrow> dp_ptr \<Rightarrow> bool" where
  "skip_uninteresting E dive st d nextdp =
     (\<not> entered d \<and> nextdp \<noteq> [] \<and> depth_mm d \<noteq> lastdepth st \<and> depth_differs d nextdp \<and>
      \<not> gaschange_before_of E dive st d \<and> \<not> gaschange_after_of E dive d nextdp)"

text \<open>The second test that skips a leg (line 214); \<open>rest\<close> is \<open>dp->next\<close>.\<close>

definition skip_short ::
  "env \<Rightarrow> dive \<Rightarrow> loop_state \<Rightarrow> divedatapoint \<Rightarrow> dp_ptr \<Rightarrow> dp_ptr \<Rightarrow> bool" where
  "skip_short E dive st d rest nextdp =
     ((time d - lasttime st < 10 \<and> lastdepth st = depth_mm d) \<and>
      \<not> (gaschange_after_of E dive d nextdp \<and> rest \<noteq> [] \<and> depth_differs d rest))"

text \<open>
  The ICD computation and table row of one gas change from the last printed gas mix
  (lines 328 to 330, 346 to 348 and 372 to 374).  With \<open>maxsize = sz_icdbuf - icdlen\<close>
  (before the conversion to \<open>unsigned\<close>), the row is in the block whole when its
  length and the final 0 byte fit in \<open>maxsize\<close>; it is cut when they do not; and a
  write goes outside the block when \<open>maxsize\<close> is less than the length of the first
  part of the row: the second \<open>snprintf\<close> of \<open>add_icd_entry\<close> then starts beyond
  \<open>maxsize\<close> with the size \<open>maxsize - len\<close>, which is unsigned and wraps (for a
  negative \<open>maxsize\<close> the first one does already).
\<close>

definition record_icd :: "env \<Rightarrow> dive \<Rightarrow> gasmix \<Rightarrow> int \<Rightarrow> int \<Rightarrow> loop_state \<Rightarrow> loop_state" where
  "record_icd E dive gas_to time_seconds depth st =
     (let r = isobaric_counterdiffusion E (lastprintgasmix st) gas_to;
          row = add_icd_entry (snd r) time_seconds (depth_to_mbar E depth dive)
                  (lastprintgasmix st) gas_to;
          len = add_icd_entry_length E row;
          maxsize = sz_icdbuf - icdlen_of E dive st
      in st \<lparr> icdwarning := (if fst r then True else icdwarning st),
              icdbuffer := (if fst len + snd len < maxsize then icdbuffer st @ [row]
                            else icdbuffer st),
              icd_overrun := (icd_overrun st \<or> maxsize < fst len),
              icdlen_rows := icdlen_rows st + (fst len + snd len) \<rparr>)"

text \<open>The test of lines 287 to 292: does the collapsed plan print a row for this
  waypoint?\<close>

definition print_segment ::
  "env \<Rightarrow> preferences \<Rightarrow> dive \<Rightarrow> loop_state \<Rightarrow> divedatapoint \<Rightarrow> dp_ptr \<Rightarrow> dp_ptr \<Rightarrow> bool" where
  "print_segment E P dive st d rest nextdp =
     (let isascent = depth_mm d < lastdepth st;
          gaschange_after = gaschange_after_of E dive d nextdp;
          gaschange_before = gaschange_before_of E dive st d
      in display_transitions P \<or> entered d \<or> rest = [] \<or>
         depth_differs d nextdp \<or>
         (\<not> isascent \<and> gaschange_before \<and> depth_differs d nextdp) \<or>
         (gaschange_after \<and> lastentered st) \<or> (gaschange_after \<and> \<not> isascent) \<or>
         (isascent \<and> gaschange_after \<and> depth_differs d nextdp) \<or>
         (lastentered st \<and> \<not> entered d))"

definition segment_symbol :: "loop_state \<Rightarrow> divedatapoint \<Rightarrow> segmentsymbol" where
  "segment_symbol st d =
     (if depth_mm d < lastdepth st then Ascent_Symbol
      else if depth_mm d > lastdepth st then Descent_Symbol
      else if entered d then Entered_Symbol
      else Deco_Stop_Symbol)"

text \<open>The test of line 319: the gas change is shown at the end of this segment.\<close>

definition trailing_gaschange ::
  "env \<Rightarrow> dive \<Rightarrow> loop_state \<Rightarrow> divedatapoint \<Rightarrow> dp_ptr \<Rightarrow> dp_ptr \<Rightarrow> bool" where
  "trailing_gaschange E dive st d rest nextdp =
     ((depth_mm d < lastdepth st \<or> entered d) \<and> gaschange_after_of E dive d nextdp \<and>
      rest \<noteq> [] \<and>
      (case nextdp of [] \<Rightarrow> False | n # _ \<Rightarrow> depth_mm d \<noteq> depth_mm n \<or> entered n))"

text \<open>
  The collapsed (non-verbatim) branch of the loop body, lines 287 to 361.  It returns
  the new state and the new value of the local \<open>gaschange_after\<close>.
\<close>

definition print_collapsed ::
  "env \<Rightarrow> preferences \<Rightarrow> dive \<Rightarrow> loop_state \<Rightarrow> divedatapoint \<Rightarrow> dp_ptr \<Rightarrow> dp_ptr
     \<Rightarrow> loop_state \<times> bool" where
  "print_collapsed E P dive st d rest nextdp =
     (let isascent = depth_mm d < lastdepth st;
          gaschange_after = gaschange_after_of E dive d nextdp;
          dpgasmix = gasmix_of dive d;
          newgasmix = newgasmix_of dive nextdp
      in if print_segment E P dive st d rest nextdp then
           (let duration = (if display_duration P
                            then Some (c_div (time d - lasttime st + 30) 60) else None);
                runtime = (if display_runtime P then Some (c_div (time d + 30) 60) else None);
                row = Leg_Row (segment_symbol st d) (get_depth_units E (depth_mm d)) duration runtime;
                finish = (\<lambda>cell s. s \<lparr> buffer := buffer s @ [row cell],
                                        newdepth := depth_mm d, lasttime := time d \<rparr>)
            in if trailing_gaschange E dive st d rest nextdp then
                 (let next_setpoint = (case nextdp of [] \<Rightarrow> 0 | n # _ \<Rightarrow> setpoint n);
                      st1 = (if setpoint d \<noteq> 0 then st
                             else if isascent \<and> get_he E (lastprintgasmix st) > 0
                             then record_icd E dive newgasmix (time d) (depth_mm d) st
                             else st);
                      st2 = st1 \<lparr> lastprintsetpoint := next_setpoint,
                                  lastprintgasmix := newgasmix \<rparr>
                  in (finish (Gas_Cell newgasmix
                               (if setpoint d \<noteq> 0 then Some next_setpoint else None)) st2,
                      False))
               else if gaschange_before_of E dive st d then
                 (let st1 = (if setpoint d \<noteq> 0 then st
                             else if get_he E (lastprintgasmix st) > 0
                             then record_icd E dive dpgasmix (lasttime st) (depth_mm d) st
                             else st);
                      st2 = st1 \<lparr> lastprintsetpoint := setpoint d,
                                  lastprintgasmix := dpgasmix \<rparr>
                  in (finish (Gas_Cell dpgasmix
                               (if setpoint d \<noteq> 0 then Some (setpoint d) else None)) st2,
                      False))
               else (finish Blank_Cell st, gaschange_after))
         else (st, gaschange_after))"

text \<open>The verbatim branch of the loop body, lines 229 to 269.\<close>

definition print_verbatim ::
  "env \<Rightarrow> preferences \<Rightarrow> dive \<Rightarrow> loop_state \<Rightarrow> divedatapoint \<Rightarrow> dp_ptr \<Rightarrow> dp_ptr
     \<Rightarrow> loop_state" where
  "print_verbatim E P dive st d rest nextdp =
     (let gaschange_after = gaschange_after_of E dive d nextdp;
          depthvalue = get_depth_units E (depth_mm d)
      in if depth_mm d \<noteq> lastprintdepth st then
           (let st1 = (if display_transitions P \<or> entered d \<or> rest = [] \<or>
                          (gaschange_after \<and> rest \<noteq> [] \<and> depth_differs d nextdp)
                       then st \<lparr> buffer := buffer st @
                              [Transition_Line depthvalue (time d - lasttime st) (time d)
                                 (gasmix_of dive d) (setpoint d)] \<rparr>
                       else st)
            in st1 \<lparr> newdepth := depth_mm d, lasttime := time d \<rparr>)
         else if depth_differs d nextdp \<or> gaschange_after then
           st \<lparr> buffer := buffer st @
                  [Stay_Line depthvalue (time d - lasttime st) (time d)
                     (gasmix_of dive d) (setpoint d)],
                newdepth := depth_mm d, lasttime := time d \<rparr>
         else st)"

text \<open>The gas switch of the verbatim plan, lines 363 to 383, entered when the local
  \<open>gaschange_after\<close> is still set.\<close>

definition switch_gas_verbatim ::
  "env \<Rightarrow> dive \<Rightarrow> loop_state \<Rightarrow> divedatapoint \<Rightarrow> dp_ptr \<Rightarrow> loop_state" where
  "switch_gas_verbatim E dive st d nextdp =
     (let isascent = depth_mm d < lastdepth st;
          newgasmix = newgasmix_of dive nextdp;
          next_setpoint = (case nextdp of [] \<Rightarrow> 0 | n # _ \<Rightarrow> setpoint n);
          st1 = (if lastsetpoint st \<ge> 0 then
                   (if next_setpoint \<noteq> 0 then
                      st \<lparr> buffer := buffer st @ [Switch_Gas_Line newgasmix next_setpoint] \<rparr>
                    else
                      (let st0 = (if isascent \<and> get_he E (lastprintgasmix st) > 0
                                  then record_icd E dive newgasmix (time d) (depth_mm d) st
                                  else st)
                       in st0 \<lparr> buffer := buffer st0 @ [Switch_Gas_Line newgasmix 0] \<rparr>))
                 else st)
      in st1 \<lparr> lastprintgasmix := newgasmix \<rparr>)"

text \<open>
  One iteration of the \<open>do ... while\<close> loop for the waypoint \<open>d\<close> with
  \<open>d->next = rest\<close> (lines 188 to 387).  A \<open>continue\<close> leaves the state as it is.
\<close>

text \<open>\<open>dp->entered && !nextdp->entered\<close> (line 218): the right operand is
  evaluated when the left one holds, whatever \<open>nextdp\<close> is.\<close>

definition last_entered_test :: "divedatapoint \<Rightarrow> dp_ptr \<Rightarrow> error + bool" where
  "last_entered_test d nextdp =
     (if entered d
      then (case nextdp of [] \<Rightarrow> Inl Null_Pointer_Dereference | n # _ \<Rightarrow> Inr (\<not> entered n))
      else Inr False)"

definition plan_step ::
  "env \<Rightarrow> preferences \<Rightarrow> dive \<Rightarrow> divedatapoint \<Rightarrow> dp_ptr \<Rightarrow> loop_state
     \<Rightarrow> error + loop_state" where
  "plan_step E P dive d rest st =
     (if time d = 0 then Inr st
      else
        (let nextdp = skip_zero_time rest in
         if skip_uninteresting E dive st d nextdp then Inr st
         else if skip_short E dive st d rest nextdp then Inr st
         else
           (case last_entered_test d nextdp of
              Inl e \<Rightarrow> Inl e
            | Inr is_last_entered \<Rightarrow>
               (let st1 = (if is_last_entered then st \<lparr> lastbottomdp := d # rest \<rparr> else st);
                    st2 = (if verbatim_plan P then
                             (let s = print_verbatim E P dive st1 d rest nextdp
                              in if gaschange_after_of E dive d nextdp
                                 then switch_gas_verbatim E dive s d nextdp else s)
                           else fst (print_collapsed E P dive st1 d rest nextdp))
                in Inr (st2 \<lparr> lastprintdepth := newdepth st2, lastdepth := depth_mm d,
                              lastsetpoint := setpoint d, lastentered := entered d \<rparr>)))))"

text \<open>After an iteration the loop goes on with \<open>nextdp\<close>: \<open>dp->next\<close> when the
  waypoint has time 0 (the \<open>continue\<close> of line 196 comes before the look-ahead), the
  next waypoint with a time otherwise.\<close>

definition loop_next :: "divedatapoint \<Rightarrow> dp_ptr \<Rightarrow> dp_ptr" where
  "loop_next d rest = (if time d = 0 then rest else skip_zero_time rest)"

function plan_loop ::
  "env \<Rightarrow> preferences \<Rightarrow> dive \<Rightarrow> dp_ptr \<Rightarrow> loop_state \<Rightarrow> error + loop_state" where
  "plan_loop E P dive [] st = Inr st"
| "plan_loop E P dive (d # rest) st =
     (case plan_step E P dive d rest st of
        Inl e \<Rightarrow> Inl e
      | Inr st' \<Rightarrow> plan_loop E P dive (loop_next d rest) st')"
  by pat_completeness auto
termination
  by (relation "measure (\<lambda>(E, P, dive, p, st). length p)")
     (auto simp: loop_next_def skip_zero_time_def length_dropWhile_le le_imp_less_Suc)

section \<open>add_plan_to_notes: gas consumption and minimum gas\<close>

definition more_gas_warning :: string where
  "more_gas_warning = ''this is more gas than available in the specified cylinder!''"

definition gas_sharing_warning :: string where
  "gas_sharing_warning = ''not enough reserve for gas sharing on ascent!''"

definition mingas_warning :: string where
  "mingas_warning =
     ''required minimum gas for ascent already exceeding start pressure of cylinder!''"

text \<open>The gas left at the end pressure, as line 472 computes it (a \<open>double\<close>).\<close>

definition remaining_volume :: "env \<Rightarrow> cylinder_t \<Rightarrow> real" where
  "remaining_volume E cyl =
     of_int (end_mbar cyl) / 1000 * of_int (type_size_mliter cyl)
       / gas_compressibility_factor E (gasmix cyl) (of_int (end_mbar cyl) / 1000)"

text \<open>\<open>deco_pressure_mbar\<close> of lines 459 to 461.\<close>

definition deco_pressure_mbar :: "env \<Rightarrow> cylinder_t \<Rightarrow> real" where
  "deco_pressure_mbar E cyl =
     (let remaining_gas =
            lrint (of_int (end_mbar cyl) * of_int (type_size_mliter cyl) / 1000
                     / gas_compressibility_factor E (gasmix cyl) (of_int (end_mbar cyl) / 1000))
      in isothermal_pressure E (gasmix cyl) 1 (remaining_gas + deco_gas_used_mliter cyl)
           (type_size_mliter cyl) * 1000 - of_int (end_mbar cyl))"

text \<open>\<open>mingasv.mliter\<close> of lines 485 to 487, for the last bottom waypoint \<open>lb\<close>.\<close>

definition mingas_volume_mliter ::
  "env \<Rightarrow> preferences \<Rightarrow> dive \<Rightarrow> divedatapoint \<Rightarrow> cylinder_t \<Rightarrow> int" where
  "mingas_volume_mliter E P dive lb cyl =
     lrint (of_int (sacfactor P) / 100 * of_int (problemsolvingtime P) * of_int (bottomsac P)
              * depth_to_bar E (depth_mm lb) dive
            + of_int (sacfactor P) / 100 * of_int (deco_gas_used_mliter cyl))"

text \<open>The value stored into \<open>lastbottomdp->minimum_gas.mbar\<close> (lines 489 and 490).\<close>

definition mingas_pressure_mbar ::
  "env \<Rightarrow> preferences \<Rightarrow> dive \<Rightarrow> divedatapoint \<Rightarrow> cylinder_t \<Rightarrow> int" where
  "mingas_pressure_mbar E P dive lb cyl =
     lrint (isothermal_pressure E (gasmix cyl) 1 (mingas_volume_mliter E P dive lb cyl)
              (type_size_mliter cyl) * 1000)"

text \<open>
  The body of the loop over the cylinders (lines 448 to 536) for the cylinder with
  index \<open>gasidx\<close>, after the \<open>cylinder_none\<close> test.  It returns the printed row and
  the value written to \<open>lastbottomdp->minimum_gas.mbar\<close>, if any.
\<close>

definition consumption ::
  "env \<Rightarrow> preferences \<Rightarrow> dive \<Rightarrow> dp_ptr \<Rightarrow> int \<Rightarrow> consumption_row \<times> int option" where
  "consumption E P dive lastbottom gasidx =
     (let cyl = cylinder dive gasidx;
          volume = get_volume_units E (gas_used_mliter cyl);
          deco_volume = get_volume_units E (deco_gas_used_mliter cyl)
      in if type_size_mliter cyl \<noteq> 0 then
           (let deco_pressure = get_pressure_units E (lrint (deco_pressure_mbar E cyl));
                pressure = get_pressure_units E (start_mbar cyl - end_mbar cyl);
                temp = (if lrint volume > 0
                        then Volume_Pressure_Ascent volume pressure (gasmix cyl)
                               deco_volume deco_pressure
                        else Volume_Pressure volume pressure (gasmix cyl));
                plain = \<lparr> cr_text = temp, cr_warning = [], cr_mingas = None \<rparr>
            in if end_mbar cyl < 10000 then
                 (plain \<lparr> cr_warning := more_gas_warning \<rparr>, None)
               else if remaining_volume E cyl < of_int (deco_gas_used_mliter cyl) then
                 (plain \<lparr> cr_warning := gas_sharing_warning \<rparr>, None)
               else
                 (case lastbottom of
                    [] \<Rightarrow> (plain, None)
                  | lb # _ \<Rightarrow>
                      if gasidx = cylinderid lb \<and> dc_divemode dive = OC
                         \<and> decoMode E \<noteq> RECREATIONAL then
                        (let mingasv = mingas_volume_mliter E P dive lb cyl;
                             minimum_gas = mingas_pressure_mbar E P dive lb cyl;
                             mingas_d_pressure =
                               get_pressure_units E
                                 (lrint (of_int (end_mbar cyl) + deco_pressure_mbar E cyl
                                         - of_int minimum_gas))
                         in if start_mbar cyl > minimum_gas then
                              (plain \<lparr> cr_mingas := Some
                                 \<lparr> mg_colour = (if mingas_d_pressure > 0 then ''green'' else ''red''),
                                   mg_sacfactor = of_int (sacfactor P) / 100,
                                   mg_problemsolvingtime = problemsolvingtime P,
                                   mg_depth = get_depth_units E (depth_mm lb),
                                   mg_volume = get_volume_units E mingasv,
                                   mg_pressure = get_pressure_units E minimum_gas,
                                   mg_delta_colour =
                                     (if mingas_d_pressure > 0 then ''grey'' else ''indianred''),
                                   mg_delta_pressure = mingas_d_pressure \<rparr> \<rparr>,
                               Some minimum_gas)
                            else (plain \<lparr> cr_warning := mingas_warning \<rparr>, Some minimum_gas))
                      else (plain, None)))
         else
           (\<lparr> cr_text = (if lrint volume > 0
                          then Volume_Ascent volume (gasmix cyl) deco_volume
                          else Volume_Only volume (gasmix cyl)),
              cr_warning = [], cr_mingas = None \<rparr>, None))"

text \<open>The loop over the cylinders: it stops at the first cylinder that
  \<open>cylinder_none\<close> holds for.\<close>

fun consumption_loop ::
  "env \<Rightarrow> preferences \<Rightarrow> dive \<Rightarrow> dp_ptr \<Rightarrow> nat list
     \<Rightarrow> consumption_row list \<times> int option \<Rightarrow> consumption_row list \<times> int option" where
  "consumption_loop E P dive lastbottom [] acc = acc"
| "consumption_loop E P dive lastbottom (gasidx # idxs) acc =
     (if cylinder_none E (cylinder dive (int gasidx)) then acc
      else
        (let r = consumption E P dive lastbottom (int gasidx)
         in consumption_loop E P dive lastbottom idxs
              (fst acc @ [fst r], (case snd r of None \<Rightarrow> snd acc | Some v \<Rightarrow> Some v))))"

text \<open>The write through \<open>lastbottomdp\<close> lands in the node of the plan the pointer
  stands for.\<close>

definition store_minimum_gas :: "divedatapoint list \<Rightarrow> dp_ptr \<Rightarrow> int option \<Rightarrow> divedatapoint list" where
  "store_minimum_gas dps lastbottom w =
     (case w of
        None \<Rightarrow> dps
      | Some v \<Rightarrow>
          (let i = length dps - length lastbottom
           in if lastbottom = [] \<or> length dps < length lastbottom then dps
              else dps[i := (dps ! i) \<lparr> minimum_gas_mbar := v \<rparr>]))"

section \<open>add_plan_to_notes: the warnings for pO2\<close>

text \<open>The body of the loop of lines 555 to 591 for one waypoint.\<close>

definition po2_check :: "env \<Rightarrow> preferences \<Rightarrow> dive \<Rightarrow> divedatapoint \<Rightarrow> po2_warning list" where
  "po2_check E P dive d =
     (if time d \<noteq> 0 then
        (let pressures_o2 = fill_pressures_o2 E (depth_to_atm E (depth_mm d) dive)
                              (gasmix_of dive d) 0 (dc_divemode dive)
         in if pressures_o2 > of_int (if entered d then bottompo2 P else decopo2 P) / 1000 then
              [High_pO2 pressures_o2 (time d) (gasmix_of dive d) (get_depth_units E (depth_mm d))]
            else if pressures_o2 < 0.16 then
              [Low_pO2 pressures_o2 (time d) (gasmix_of dive d) (get_depth_units E (depth_mm d))]
            else [])
      else [])"

fun po2_loop :: "env \<Rightarrow> preferences \<Rightarrow> dive \<Rightarrow> dp_ptr \<Rightarrow> po2_warning list" where
  "po2_loop E P dive [] = []"
| "po2_loop E P dive (d # rest) = po2_check E P dive d @ po2_loop E P dive rest"

definition po2_warnings :: "env \<Rightarrow> preferences \<Rightarrow> dive \<Rightarrow> diveplan \<Rightarrow> po2_warning list" where
  "po2_warnings E P dive diveplan =
     (if dc_divemode dive \<noteq> CCR then po2_loop E P dive (dp diveplan) else [])"

section \<open>add_plan_to_notes\<close>

text \<open>
  The state of the ICD buffer when the table is closed (line 541, for a dive with a
  trimix cylinder): \<open>Overrun\<close> when a write of the loop went outside the block or when
  the closing tag is written beyond its end; \<open>Intact\<close> when every row and the closing
  tag are in the block whole; \<open>Cut\<close> when the text was cut at the end of the block.
\<close>

definition icd_buffer_state :: "env \<Rightarrow> dive \<Rightarrow> loop_state \<Rightarrow> buffer_state" where
  "icd_buffer_state E dive st =
     (let icdlen = icdlen_of E dive st;
          closing = (if istrimix_of E dive then int (length ''</tbody></table>'') else 0)
      in if icd_overrun st \<or> (istrimix_of E dive \<and> sz_icdbuf < icdlen) then Overrun
         else if icdlen + closing < sz_icdbuf then Intact
         else Cut)"

definition disclaimer_text :: "string \<Rightarrow> string" where
  "disclaimer_text deco =
     ''DISCLAIMER / WARNING: THIS IS A NEW IMPLEMENTATION OF THE '' @ deco @
     '' ALGORITHM AND A DIVE PLANNER IMPLEMENTATION BASED ON THAT WHICH HAS '' @
     ''RECEIVED ONLY A LIMITED AMOUNT OF TESTING. WE STRONGLY RECOMMEND NOT TO '' @
     ''PLAN DIVES SIMPLY BASED ON THE RESULTS GIVEN HERE.''"

definition aborted_warning :: string where
  "aborted_warning = ''Decompression calculation aborted due to excessive time''"

definition deco_line_of :: "env \<Rightarrow> diveplan \<Rightarrow> deco_line" where
  "deco_line_of E diveplan =
     (case decoMode E of
        BUEHLMANN \<Rightarrow> Buehlmann_Line (gflow diveplan) (gfhigh diveplan)
      | VPMB \<Rightarrow> VPMB_Line (vpmb_conservatism diveplan)
                 (if eff_gflow diveplan \<noteq> 0
                  then Some (eff_gflow diveplan, eff_gfhigh diveplan) else None)
      | RECREATIONAL \<Rightarrow> Recreational_Line (gflow diveplan) (gfhigh diveplan))"

text \<open>
  The whole function.  It is \<open>void\<close>: its results are the state it leaves behind in
  the static buffer and the \<open>disclaimer\<close> global, in the plan (the minimum gas of
  the last bottom waypoint) and in the dive (\<open>notes\<close>, \<open>cns\<close>, \<open>maxcns\<close> and what
  \<open>update_cylinder_related_info\<close> recomputes).  The arguments of the model are the
  environment, \<open>prefs\<close>, that state before the call, and the parameters
  \<open>show_disclaimer\<close> and \<open>error\<close>.
\<close>

definition add_plan_to_notes ::
  "env \<Rightarrow> preferences \<Rightarrow> globals \<Rightarrow> diveplan \<Rightarrow> dive \<Rightarrow> bool \<Rightarrow> int
     \<Rightarrow> error + globals \<times> diveplan \<times> dive" where
  "add_plan_to_notes E P G diveplan dive show_disclaimer err =
     (let deco = (if decoMode E = VPMB then ''VPM-B'' else ''BUHLMANN'');
          G1 = G \<lparr> static_buf := disclaimer_text deco \<rparr>;
          G2 = G1 \<lparr> disclaimer := static_buf G1 \<rparr>
      in if dp diveplan = [] then Inr (G2, diveplan, dive)
         else if err \<noteq> 0 then
           Inr (G2, diveplan, dive \<lparr> dive_notes := Some (Aborted_Notes aborted_warning) \<rparr>)
         else
           (let shown = (if show_disclaimer then Some (disclaimer G2) else None)
            in if surface_interval diveplan < 0 then
                 Inr (G2, diveplan,
                      dive \<lparr> dive_notes := Some (Overlapping_Notes shown
                               (Overlapping_Banner (subsurface_canonical_version E))) \<rparr>)
               else
                 (case plan_loop E P dive (dp diveplan) initial_loop_state of
                    Inl e \<Rightarrow> Inl e
                  | Inr st \<Rightarrow>
                     (let dive1 = update_cylinder_related_info E (dive \<lparr> cns := 0, maxcns := 0 \<rparr>);
                          gas = consumption_loop E P dive1 (lastbottomdp st)
                                  [0 ..< MAX_CYLINDERS E] ([], None);
                          rep = \<lparr> r_disclaimer = shown,
                                  r_banner =
                                    (if surface_interval diveplan \<ge> 48 * 60 * 60
                                     then Created_Banner (subsurface_canonical_version E)
                                            (get_current_date E)
                                     else Surface_Interval_Banner (subsurface_canonical_version E)
                                            (c_div (surface_interval diveplan) 60)
                                            (get_current_date E)),
                                  r_runtime_min = diveplan_duration diveplan,
                                  r_variations = (display_variations P \<and> decoMode E \<noteq> RECREATIONAL),
                                  r_lines = buffer st,
                                  r_cns = cns dive1,
                                  r_otu = otu dive1,
                                  r_deco_line = deco_line_of E diveplan,
                                  r_atm_pressure = (surface_pressure diveplan,
                                                    altitude_of E (surface_pressure diveplan)),
                                  r_sac = (if dc_divemode dive1 = CCR then None
                                           else Some (get_volume_units E (bottomsac P),
                                                      get_volume_units E (decosac P))),
                                  r_consumption = fst gas,
                                  r_icd = (if istrimix_of E dive
                                           then Some (icdbuffer st, icdwarning st) else None),
                                  r_icd_buffer = icd_buffer_state E dive st,
                                  r_po2_warnings = po2_warnings E P dive1 diveplan \<rparr>
                      in Inr (G2,
                              diveplan \<lparr> dp := store_minimum_gas (dp diveplan) (lastbottomdp st)
                                                 (snd gas) \<rparr>,
                              dive1 \<lparr> dive_notes := Some (Report_Notes rep) \<rparr>)))))"

section \<open>What a call leaves behind\<close>

text \<open>The notes a call leaves in the dive (\<open>None\<close> when the call does not return).\<close>

definition notes_of_result :: "error + globals \<times> diveplan \<times> dive \<Rightarrow> plan_notes option" where
  "notes_of_result r = (case r of Inl e \<Rightarrow> None | Inr (G, diveplan, dive) \<Rightarrow> dive_notes dive)"

definition is_report :: "plan_notes option \<Rightarrow> bool" where
  "is_report n = (case n of Some (Report_Notes rep) \<Rightarrow> True | _ \<Rightarrow> False)"

text \<open>The lines of the plan table alone, from the initial values of the locals.\<close>

definition plan_lines ::
  "env \<Rightarrow> preferences \<Rightarrow> dive \<Rightarrow> dp_ptr \<Rightarrow> error + plan_line list" where
  "plan_lines E P dive dps =
     (case plan_loop E P dive dps initial_loop_state of
        Inl e \<Rightarrow> Inl e
      | Inr st \<Rightarrow> Inr (buffer st))"

text \<open>The ICD rows recorded by the loop, the ICD flag and the state of the ICD buffer,
  from the initial values of the locals.\<close>

definition plan_icd ::
  "env \<Rightarrow> preferences \<Rightarrow> dive \<Rightarrow> dp_ptr \<Rightarrow> error + icd_entry list \<times> bool \<times> buffer_state" where
  "plan_icd E P dive dps =
     (case plan_loop E P dive dps initial_loop_state of
        Inl e \<Rightarrow> Inl e
      | Inr st \<Rightarrow> Inr (icdbuffer st, icdwarning st, icd_buffer_state E dive st))"




text \<open>The rows of the gas consumption in the notes of a full report.\<close>

definition consumption_of_notes :: "plan_notes option \<Rightarrow> consumption_row list" where
  "consumption_of_notes n =
     (case n of Some (Report_Notes rep) \<Rightarrow> r_consumption rep | _ \<Rightarrow> [])"

text \<open>The banner without the creation date, which \<open>get_current_date\<close> reads from
  the clock.\<close>

fun erase_date :: "banner \<Rightarrow> banner" where
  "erase_date (Overlapping_Banner v) = Overlapping_Banner v"
| "erase_date (Created_Banner v date) = Created_Banner v []"
| "erase_date (Surface_Interval_Banner v minutes date) = Surface_Interval_Banner v minutes []"

fun notes_without_date :: "plan_notes \<Rightarrow> plan_notes" where
  "notes_without_date (Aborted_Notes w) = Aborted_Notes w"
| "notes_without_date (Overlapping_Notes d b) = Overlapping_Notes d (erase_date b)"
| "notes_without_date (Report_Notes rep) = Report_Notes (rep \<lparr> r_banner := erase_date (r_banner rep) \<rparr>)"

definition result_without_date ::
  "error + globals \<times> diveplan \<times> dive \<Rightarrow> error + globals \<times> diveplan \<times> dive" where
  "result_without_date r =
     (case r of
        Inl e \<Rightarrow> Inl e
      | Inr (G, diveplan, dive) \<Rightarrow>
          Inr (G, diveplan, dive \<lparr> dive_notes := map_option notes_without_date (dive_notes dive) \<rparr>))"

section \<open>Concrete inputs\<close>

fun decimal :: "nat \<Rightarrow> string" where
  "decimal n = (if n < 10 then [''0123456789'' ! n]
                else decimal (n div 10) @ [''0123456789'' ! (n mod 10)])"

declare decimal.simps [simp del]

definition metric_gasname :: "gasmix \<Rightarrow> string" where
  "metric_gasname mix =
     (if he mix = 0 then ''EAN'' @ decimal (nat ((o2 mix + 5) div 10))
      else decimal (nat ((o2 mix + 5) div 10)) @ ''/'' @ decimal (nat ((he mix + 5) div 10)))"

text \<open>
  An environment for the closed examples: metric units, sea water of 1 bar per 10 m
  on a surface pressure of 1 bar, an ideal gas (compressibility factor 1), the gas mix
  distance as the sum of the squared differences, gas names such as \<open>EAN32\<close> and
  \<open>18/45\<close>, the oxygen partial pressure of an open-circuit diver, and an ICD test
  that reports a violation when \<open>5 * dN2 > -dHe\<close>.
\<close>

definition n2 :: "gasmix \<Rightarrow> int" where
  "n2 mix = 1000 - o2 mix - he mix"

definition metric_env :: env where
  "metric_env =
     \<lparr> gasmix_distance =
         (\<lambda>a b. (he a - he b) * (he a - he b) + (o2 a - o2 b) * (o2 a - o2 b)),
       get_he = he,
       gasname = metric_gasname,
       isobaric_counterdiffusion =
         (\<lambda>old new. (5 * (n2 new - n2 old) > - (he new - he old),
                      \<lparr> dN2 = n2 new - n2 old, dHe = he new - he old \<rparr>)),
       depth_to_mbar = (\<lambda>depth dive. 1000 + depth div 10),
       depth_to_bar = (\<lambda>depth dive. of_int (1000 + depth div 10) / 1000),
       depth_to_atm = (\<lambda>depth dive. of_int (1000 + depth div 10) / 1000),
       isothermal_pressure = (\<lambda>mix p1 volume1 volume2. p1 * of_int volume1 / of_int volume2),
       gas_compressibility_factor = (\<lambda>mix bar. 1),
       fill_pressures_o2 = (\<lambda>amb mix po2 mode. amb * of_int (o2 mix) / 1000),
       cylinder_none =
         (\<lambda>cyl. type_size_mliter cyl = 0 \<and> start_mbar cyl = 0 \<and> end_mbar cyl = 0),
       get_depth_units = (\<lambda>mm. of_int mm / 1000),
       get_volume_units = (\<lambda>ml. of_int ml / 1000),
       get_pressure_units = (\<lambda>mbar. of_int mbar / 1000),
       update_cylinder_related_info =
         (\<lambda>dive. dive \<lparr> maxcns := (if maxcns dive = 0 then cns dive else maxcns dive) \<rparr>),
       decoMode = BUEHLMANN,
       altitude_of = (\<lambda>mbar. 0),
       get_current_date = ''2020-01-01'',
       subsurface_canonical_version = ''4.9'',
       MAX_CYLINDERS = 20 \<rparr>"

text \<open>A waypoint without setpoint: time (s), depth (mm), cylinder, entered.\<close>

definition waypoint :: "int \<Rightarrow> int \<Rightarrow> int \<Rightarrow> bool \<Rightarrow> divedatapoint" where
  "waypoint t depth cyl e =
     \<lparr> time = t, depth_mm = depth, cylinderid = cyl, minimum_gas_mbar = 0, setpoint = 0,
       entered = e \<rparr>"

text \<open>A 12 l cylinder filled to 200 bar that ends the dive at \<open>p\<close> mbar, with
  100 l used on the ascent.\<close>

definition tank :: "int \<Rightarrow> int \<Rightarrow> int \<Rightarrow> cylinder_t" where
  "tank oxygen helium p =
     \<lparr> type_size_mliter = 12000, gasmix = \<lparr> o2 = oxygen, he = helium \<rparr>, start_mbar = 200000,
       end_mbar = p, gas_used_mliter = 1800000, deco_gas_used_mliter = 100000,
       cylinder_use = OC_GAS \<rparr>"

definition no_cylinder :: cylinder_t where
  "no_cylinder =
     \<lparr> type_size_mliter = 0, gasmix = \<lparr> o2 = 0, he = 0 \<rparr>, start_mbar = 0, end_mbar = 0,
       gas_used_mliter = 0, deco_gas_used_mliter = 0, cylinder_use = OC_GAS \<rparr>"


definition two_cylinder_dive :: "cylinder_t \<Rightarrow> cylinder_t \<Rightarrow> dive" where
  "two_cylinder_dive c0 c1 =
     \<lparr> cylinder = (\<lambda>i. if i = 0 then c0 else if i = 1 then c1 else no_cylinder),
       dc_divemode = OC, dive_notes = None, cns = 0, maxcns = 0, otu = 0 \<rparr>"


text \<open>An open-circuit dive with trimix 18/45 (cylinder 0) and nitrox 32 (cylinder 1).\<close>

definition trimix_dive :: dive where
  "trimix_dive = two_cylinder_dive (tank 180 450 50000) (tank 320 0 50000)"

text \<open>The preferences of the planner, with the verbatim flag and the two pO2 ceilings
  (mbar) left open.\<close>

definition planner_prefs :: "bool \<Rightarrow> int \<Rightarrow> int \<Rightarrow> preferences" where
  "planner_prefs verbatim bottom deco =
     \<lparr> verbatim_plan = verbatim, display_runtime = True, display_duration = True,
       display_transitions = False, display_variations = False, sacfactor = 400,
       problemsolvingtime = 4, bottomsac = 20000, decosac = 17000, bottompo2 = bottom,
       decopo2 = deco \<rparr>"

definition plan_of :: "divedatapoint list \<Rightarrow> int \<Rightarrow> diveplan" where
  "plan_of dps si =
     \<lparr> dp = dps, surface_interval = si, surface_pressure = 1013, gflow = 30, gfhigh = 70,
       vpmb_conservatism = 0, eff_gflow = 0, eff_gfhigh = 0 \<rparr>"

definition no_globals :: globals where
  "no_globals = \<lparr> static_buf = [], disclaimer = [] \<rparr>"



text \<open>The ICD row of a change from trimix 18/45 to nitrox 32 at 21 m, 25 minutes into
  the dive.\<close>

definition trimix_to_nitrox_at_21m :: icd_entry where
  "trimix_to_nitrox_at_21m =
     \<lparr> icd_runtime_min = 25, icd_gas_from = \<lparr> o2 = 180, he = 450 \<rparr>,
       icd_gas_to = \<lparr> o2 = 320, he = 0 \<rparr>, icd_dHe_percent = - 45,
       icd_dN2_colour = ''red'', icd_dN2_percent = 31, icd_max_dN2_percent = 9,
       icd_dHe_bar = - (279 / 200), icd_dN2_bar = 961 / 1000, icd_max_dN2_bar = 279 / 1000 \<rparr>"

text \<open>An open-circuit dive with the given cylinders in the first slots of the
  array.\<close>

definition cylinders_dive :: "cylinder_t list \<Rightarrow> dive" where
  "cylinders_dive cs =
     \<lparr> cylinder = (\<lambda>i. if 0 \<le> i \<and> nat i < length cs then cs ! nat i else no_cylinder),
       dc_divemode = OC, dive_notes = None, cns = 0, maxcns = 0, otu = 0 \<rparr>"

text \<open>Three cylinders of air: one that ends at 9 bar, one that ends at 10 bar with
  130 l used on the ascent, and one that ends at 50 bar.\<close>

definition three_tanks_dive :: dive where
  "three_tanks_dive =
     cylinders_dive [tank 209 0 9000, (tank 209 0 10000) \<lparr> deco_gas_used_mliter := 130000 \<rparr>,
                     tank 209 0 50000]"

text \<open>Air in slot 0 (50 bar at the end), nothing in slot 1, and nitrox 32 in slot 2,
  breathed on the ascent and down to 9 bar at the end.\<close>

definition gapped_dive :: dive where
  "gapped_dive = cylinders_dive [tank 209 0 50000, no_cylinder, tank 320 0 9000]"


text \<open>An ascent from 60 m in steps of 2 m, one minute each, that changes between two
  cylinders at every step: \<open>n\<close> waypoints after the bottom waypoint.\<close>

definition ladder :: "nat \<Rightarrow> divedatapoint list" where
  "ladder n = waypoint 1200 60000 0 True #
     map (\<lambda>k. waypoint (1260 + 60 * int k) (58000 - 2000 * int k) (int (Suc k mod 2)) False)
       [0 ..< n]"

text \<open>An open-circuit dive with trimix 18/45 (cylinder 0) and trimix 21/35
  (cylinder 1).\<close>

definition two_trimix_dive :: dive where
  "two_trimix_dive = two_cylinder_dive (tank 180 450 50000) (tank 210 350 50000)"

section \<open>Relations used in the proofs\<close>



section \<open>Properties\<close>

subsection \<open>The ICD threshold\<close>

text \<open>
  C3.  For all integer deltas \<open>dHe\<close> and \<open>dN2\<close> of a gas change, the row that
  \<open>add_icd_entry\<close> prints marks the change as a violation (the \<open>dN2\<close> cell is
  red) exactly when \<open>5 * dN2 > -dHe\<close>, a strict comparison of integers, and prints it
  in the ordinary colour otherwise.  With \<open>dHe = -50\<close>, \<open>dN2 = 12\<close> is a violation
  and \<open>dN2 = 9\<close> is not.
\<close>

theorem icd_violation_mark:
  "(icd_dN2_colour (add_icd_entry v t amb g1 g2) = ''red'' \<longleftrightarrow> 5 * dN2 v > - dHe v) \<and>
   (icd_dN2_colour (add_icd_entry v t amb g1 g2) = ''#383838'' \<longleftrightarrow> \<not> 5 * dN2 v > - dHe v) \<and>
   icd_dN2_colour (add_icd_entry \<lparr> dN2 = 12, dHe = - 50 \<rparr> t amb g1 g2) = ''red'' \<and>
   icd_dN2_colour (add_icd_entry \<lparr> dN2 = 9, dHe = - 50 \<rparr> t amb g1 g2) = ''#383838''"
  by (simp add: add_icd_entry_def)

subsection \<open>Legs that are skipped\<close>



subsection \<open>The pointers the traversal reads through\<close>

text \<open>
  C10.  The claim is that the traversal reads \<open>nextdp->entered\<close> only when
  \<open>nextdp\<close> is not \<open>NULL\<close>, also at the last waypoint.  The test of line 218 has
  no such guard: for a plan whose last waypoint was entered by hand (here a plan of one
  entered waypoint, 20 minutes at 18 m) the loop reads through the \<open>NULL\<close> successor,
  whatever the environment, the preferences and the dive are.
\<close>

theorem terminal_entered_waypoint_null_dereference:
  "plan_loop E P dive [waypoint 1200 18000 0 True] initial_loop_state
     = Inl Null_Pointer_Dereference \<and>
   add_plan_to_notes E P G (plan_of [waypoint 1200 18000 0 True] 3600) dive show_disclaimer 0
     = Inl Null_Pointer_Dereference"
  by (simp add: add_plan_to_notes_def plan_of_def plan_step_def waypoint_def
      initial_loop_state_def skip_zero_time_def skip_uninteresting_def skip_short_def
      last_entered_test_def Let_def)

subsection \<open>Early results\<close>




subsection \<open>Warnings of the gas consumption\<close>

lemma warnings_differ:
  "more_gas_warning \<noteq> gas_sharing_warning" "more_gas_warning \<noteq> mingas_warning"
  "gas_sharing_warning \<noteq> mingas_warning" "more_gas_warning \<noteq> []"
  "gas_sharing_warning \<noteq> []" "mingas_warning \<noteq> []"
  by (simp_all add: more_gas_warning_def gas_sharing_warning_def mingas_warning_def)

lemma reached_slots:
  "i < length (takeWhile Q [0 ..< n]) \<longleftrightarrow> i < n \<and> (\<forall>j \<le> i. Q j)"
proof
  assume i: "i < length (takeWhile Q [0 ..< n])"
  have le: "length (takeWhile Q [0 ..< n]) \<le> n"
    using length_takeWhile_le [of Q "[0 ..< n]"] by simp
  have "Q j" if "j \<le> i" for j
  proof -
    have j: "j < length (takeWhile Q [0 ..< n])" using that i by simp
    then have "takeWhile Q [0 ..< n] ! j \<in> set (takeWhile Q [0 ..< n])" by simp
    then have "Q (takeWhile Q [0 ..< n] ! j)" by (rule set_takeWhileD [THEN conjunct2])
    moreover have "takeWhile Q [0 ..< n] ! j = j"
      using j le by (simp add: takeWhile_nth)
    ultimately show ?thesis by simp
  qed
  then show "i < n \<and> (\<forall>j \<le> i. Q j)" using i le by simp
next
  assume a: "i < n \<and> (\<forall>j \<le> i. Q j)"
  have "Suc i \<le> length (takeWhile Q [0 ..< n])"
    by (rule length_takeWhile_less_P_nth) (use a in auto)
  then show "i < length (takeWhile Q [0 ..< n])" by simp
qed

lemma map_three: "length xs = 3 \<Longrightarrow> map f xs = [f (xs ! 0), f (xs ! 1), f (xs ! 2)]"
  by (auto simp: numeral_3_eq_3 length_Suc_conv)

lemma reached_slot_nth:
  "i < length (takeWhile Q [0 ..< n]) \<Longrightarrow> takeWhile Q [0 ..< n] ! i = i"
  using length_takeWhile_le [of Q "[0 ..< n]"] by (simp add: takeWhile_nth)

text \<open>The rows of the gas consumption are the rows of the cylinders before the first
  one that \<open>cylinder_none\<close> holds for, in order.\<close>

lemma consumption_loop_rows:
  "fst (consumption_loop E P dive lastbottom idxs acc)
     = fst acc @ map (\<lambda>i. fst (consumption E P dive lastbottom (int i)))
         (takeWhile (\<lambda>i. \<not> cylinder_none E (cylinder dive (int i))) idxs)"
  by (induction idxs arbitrary: acc) (simp_all add: Let_def)

lemma consumption_warning:
  assumes "type_size_mliter (cylinder dive gasidx) \<noteq> 0"
  shows "(cr_warning (fst (consumption E P dive lastbottom gasidx)) = more_gas_warning
            \<longleftrightarrow> end_mbar (cylinder dive gasidx) < 10000) \<and>
         (cr_warning (fst (consumption E P dive lastbottom gasidx)) = gas_sharing_warning
            \<longleftrightarrow> \<not> end_mbar (cylinder dive gasidx) < 10000 \<and>
                of_int (end_mbar (cylinder dive gasidx)) / 1000
                  * of_int (type_size_mliter (cylinder dive gasidx))
                  / gas_compressibility_factor E (gasmix (cylinder dive gasidx))
                      (of_int (end_mbar (cylinder dive gasidx)) / 1000)
                < of_int (deco_gas_used_mliter (cylinder dive gasidx)))"
  using assms
  by (auto simp: consumption_def Let_def remaining_volume_def warnings_differ
      warnings_differ[symmetric] split: list.splits)

lemma notes_consumption:
  assumes "dp diveplan \<noteq> []" and "err = 0" and "0 \<le> surface_interval diveplan"
    and "plan_loop E P dive (dp diveplan) initial_loop_state = Inr st"
  shows "consumption_of_notes
           (notes_of_result (add_plan_to_notes E P G diveplan dive show_disclaimer err))
         = fst (consumption_loop E P
                  (update_cylinder_related_info E (dive \<lparr> cns := 0, maxcns := 0 \<rparr>))
                  (lastbottomdp st) [0 ..< MAX_CYLINDERS E] ([], None))"
  using assms
  by (simp add: add_plan_to_notes_def notes_of_result_def consumption_of_notes_def Let_def)

text \<open>
  C6 (as amended).  When \<open>add_plan_to_notes\<close> writes a full report, the notes have
  one row of gas consumption for every cylinder that the loop over the cylinders
  reaches, in the order of the array: the cylinders with an index below
  \<open>MAX_CYLINDERS\<close> and no empty slot (\<open>cylinder_none\<close>) at or before their index.
  For such a cylinder of non-zero size, the warning of its row is "more gas than
  available" exactly when the end pressure is below 10000 mbar; it is "not enough
  reserve for gas sharing" exactly when the end pressure is not below 10000 mbar and the
  gas left at the end pressure, with the compressibility factor, is less than the gas
  used on the ascent.  The two texts differ and a row has one warning text, so at most
  one of them appears for a cylinder.  The cylinders are those of the dive after
  \<open>update_cylinder_related_info\<close>.  (The compressibility factor is positive: the
  model's division agrees with the \<open>double\<close> division of the source there.)
\<close>

theorem gas_warnings_in_notes:
  assumes "dp diveplan \<noteq> []" and "err = 0" and "0 \<le> surface_interval diveplan"
    and "plan_loop E P dive (dp diveplan) initial_loop_state = Inr st"
    and "dive1 = update_cylinder_related_info E (dive \<lparr> cns := 0, maxcns := 0 \<rparr>)"
    and "rows = consumption_of_notes
                  (notes_of_result (add_plan_to_notes E P G diveplan dive show_disclaimer err))"
  shows "is_report (notes_of_result (add_plan_to_notes E P G diveplan dive show_disclaimer err)) \<and>
         (\<forall>i. i < length rows \<longleftrightarrow>
                i < MAX_CYLINDERS E \<and> (\<forall>j \<le> i. \<not> cylinder_none E (cylinder dive1 (int j)))) \<and>
         (\<forall>i < length rows.
            type_size_mliter (cylinder dive1 (int i)) \<noteq> 0 \<and>
            0 < gas_compressibility_factor E (gasmix (cylinder dive1 (int i)))
                  (of_int (end_mbar (cylinder dive1 (int i))) / 1000) \<longrightarrow>
              (cr_warning (rows ! i) = more_gas_warning
                 \<longleftrightarrow> end_mbar (cylinder dive1 (int i)) < 10000) \<and>
              (cr_warning (rows ! i) = gas_sharing_warning
                 \<longleftrightarrow> \<not> end_mbar (cylinder dive1 (int i)) < 10000 \<and>
                     of_int (end_mbar (cylinder dive1 (int i))) / 1000
                       * of_int (type_size_mliter (cylinder dive1 (int i)))
                       / gas_compressibility_factor E (gasmix (cylinder dive1 (int i)))
                           (of_int (end_mbar (cylinder dive1 (int i))) / 1000)
                     < of_int (deco_gas_used_mliter (cylinder dive1 (int i))))) \<and>
         more_gas_warning \<noteq> gas_sharing_warning"
proof -
  let ?reached = "takeWhile (\<lambda>i. \<not> cylinder_none E (cylinder dive1 (int i))) [0 ..< MAX_CYLINDERS E]"
  have rows: "rows = map (\<lambda>i. fst (consumption E P dive1 (lastbottomdp st) (int i))) ?reached"
    using notes_consumption [OF assms(1-4), of G show_disclaimer] assms(5,6)
    by (simp add: consumption_loop_rows)
  have report: "is_report (notes_of_result
                  (add_plan_to_notes E P G diveplan dive show_disclaimer err))"
    using assms(1-4) by (simp add: add_plan_to_notes_def Let_def is_report_def notes_of_result_def)
  have reach: "i < length rows \<longleftrightarrow>
                i < MAX_CYLINDERS E \<and> (\<forall>j \<le> i. \<not> cylinder_none E (cylinder dive1 (int j)))" for i
    by (simp add: rows reached_slots)
  have row: "rows ! i = fst (consumption E P dive1 (lastbottomdp st) (int i))"
    if "i < length rows" for i
    using that by (simp add: rows reached_slot_nth)
  have warn:
    "(cr_warning (rows ! i) = more_gas_warning
         \<longleftrightarrow> end_mbar (cylinder dive1 (int i)) < 10000) \<and>
     (cr_warning (rows ! i) = gas_sharing_warning
         \<longleftrightarrow> \<not> end_mbar (cylinder dive1 (int i)) < 10000 \<and>
             of_int (end_mbar (cylinder dive1 (int i))) / 1000
               * of_int (type_size_mliter (cylinder dive1 (int i)))
               / gas_compressibility_factor E (gasmix (cylinder dive1 (int i)))
                   (of_int (end_mbar (cylinder dive1 (int i))) / 1000)
             < of_int (deco_gas_used_mliter (cylinder dive1 (int i))))"
    if "i < length rows" "type_size_mliter (cylinder dive1 (int i)) \<noteq> 0" for i
    using consumption_warning [OF that(2), of E P "lastbottomdp st"] row [OF that(1)] by simp
  show ?thesis
    using report reach warn warnings_differ(1) by blast
qed

text \<open>
  Counterexample to C6 as stated: the dive has air in slot 0, nothing in slot 1 and
  nitrox 32 in slot 2, which the ascent is made on and which ends at 9 bar.  That
  cylinder is in use, has a size and an end pressure below 10000 mbar, and the notes
  have one row of gas consumption, for slot 0, without a warning: the loop over the
  cylinders stops at the empty slot.
\<close>

theorem cylinder_behind_empty_slot_counterexample:
  "cylinderid (waypoint 1320 0 2 False) = 2 \<and>
   \<not> cylinder_none metric_env
       (cylinder (update_cylinder_related_info metric_env (gapped_dive \<lparr> cns := 0, maxcns := 0 \<rparr>)) 2) \<and>
   type_size_mliter
     (cylinder (update_cylinder_related_info metric_env (gapped_dive \<lparr> cns := 0, maxcns := 0 \<rparr>)) 2)
     \<noteq> 0 \<and>
   end_mbar
     (cylinder (update_cylinder_related_info metric_env (gapped_dive \<lparr> cns := 0, maxcns := 0 \<rparr>)) 2)
     < 10000 \<and>
   is_report (notes_of_result (add_plan_to_notes metric_env (planner_prefs False 1400 1600)
       no_globals (plan_of [waypoint 1200 18000 0 True, waypoint 1320 0 2 False] 3600)
       gapped_dive False 0)) \<and>
   map cr_warning (consumption_of_notes (notes_of_result
       (add_plan_to_notes metric_env (planner_prefs False 1400 1600)
          no_globals (plan_of [waypoint 1200 18000 0 True, waypoint 1320 0 2 False] 3600)
          gapped_dive False 0))) = [[]]"
  by code_simp

text \<open>Witness for C6: a dive with three cylinders of air, one that ends at 9 bar, one
  that ends at 10 bar with 130 l used on the ascent, and one that ends at 50 bar.\<close>

theorem gas_warnings_in_notes_witness:
  "map cr_warning (consumption_of_notes (notes_of_result
       (add_plan_to_notes metric_env (planner_prefs False 1400 1600)
          no_globals (plan_of [waypoint 1200 18000 0 True, waypoint 1320 0 0 False] 3600)
          three_tanks_dive False 0)))
     = [more_gas_warning, gas_sharing_warning, []]"
proof -
  let ?P = "planner_prefs False 1400 1600"
  let ?plan = "plan_of [waypoint 1200 18000 0 True, waypoint 1320 0 0 False] 3600"
  let ?r = "add_plan_to_notes metric_env ?P no_globals ?plan three_tanks_dive False 0"
  let ?rows = "consumption_of_notes (notes_of_result ?r)"
  let ?dive1 = "update_cylinder_related_info metric_env (three_tanks_dive \<lparr> cns := 0, maxcns := 0 \<rparr>)"
  have run: "dp ?plan \<noteq> []" "(0 :: int) = 0" "0 \<le> surface_interval ?plan"
    "plan_loop metric_env ?P three_tanks_dive (dp ?plan) initial_loop_state
       = Inr (projr (plan_loop metric_env ?P three_tanks_dive (dp ?plan) initial_loop_state))"
    by code_simp+
  note rule = gas_warnings_in_notes [OF run refl refl, of no_globals False]
  have len: "\<forall>i. i < length ?rows \<longleftrightarrow>
        i < MAX_CYLINDERS metric_env \<and> (\<forall>j \<le> i. \<not> cylinder_none metric_env (cylinder ?dive1 (int j)))"
    using rule by blast
  have slots: "\<not> cylinder_none metric_env (cylinder ?dive1 (int 0))"
    "\<not> cylinder_none metric_env (cylinder ?dive1 (int 1))"
    "\<not> cylinder_none metric_env (cylinder ?dive1 (int 2))"
    "cylinder_none metric_env (cylinder ?dive1 (int 3))"
    "(3 :: nat) < MAX_CYLINDERS metric_env"
    by code_simp+
  have "(2 :: nat) < length ?rows"
  proof -
    have "\<forall>j \<le> (2 :: nat). \<not> cylinder_none metric_env (cylinder ?dive1 (int j))"
    proof (intro allI impI)
      fix j :: nat assume "j \<le> 2"
      then consider "j = 0" | "j = 1" | "j = 2" by linarith
      then show "\<not> cylinder_none metric_env (cylinder ?dive1 (int j))"
        using slots(1-3) by cases simp_all
    qed
    then show ?thesis using len slots(5) by simp
  qed
  moreover have "\<not> (3 :: nat) < length ?rows"
    using len slots(4) by blast
  ultimately have three: "length ?rows = 3" by simp
  have sized:
    "type_size_mliter (cylinder ?dive1 (int 0)) \<noteq> 0 \<and>
     0 < gas_compressibility_factor metric_env (gasmix (cylinder ?dive1 (int 0)))
           (of_int (end_mbar (cylinder ?dive1 (int 0))) / 1000)"
    "type_size_mliter (cylinder ?dive1 (int 1)) \<noteq> 0 \<and>
     0 < gas_compressibility_factor metric_env (gasmix (cylinder ?dive1 (int 1)))
           (of_int (end_mbar (cylinder ?dive1 (int 1))) / 1000)"
    "type_size_mliter (cylinder ?dive1 (int 2)) \<noteq> 0 \<and>
     0 < gas_compressibility_factor metric_env (gasmix (cylinder ?dive1 (int 2)))
           (of_int (end_mbar (cylinder ?dive1 (int 2))) / 1000)"
    by code_simp+
  have low: "end_mbar (cylinder ?dive1 (int 0)) < 10000" by code_simp
  have reserve:
    "\<not> end_mbar (cylinder ?dive1 (int 1)) < 10000 \<and>
     of_int (end_mbar (cylinder ?dive1 (int 1))) / 1000
       * of_int (type_size_mliter (cylinder ?dive1 (int 1)))
       / gas_compressibility_factor metric_env (gasmix (cylinder ?dive1 (int 1)))
           (of_int (end_mbar (cylinder ?dive1 (int 1))) / 1000)
     < of_int (deco_gas_used_mliter (cylinder ?dive1 (int 1)))"
    by code_simp
  have pos: "0 < length ?rows" "1 < length ?rows"
    using three by simp_all
  have warn: "\<forall>i < length ?rows.
      type_size_mliter (cylinder ?dive1 (int i)) \<noteq> 0 \<and>
      0 < gas_compressibility_factor metric_env (gasmix (cylinder ?dive1 (int i)))
            (of_int (end_mbar (cylinder ?dive1 (int i))) / 1000) \<longrightarrow>
        (cr_warning (?rows ! i) = more_gas_warning
           \<longleftrightarrow> end_mbar (cylinder ?dive1 (int i)) < 10000) \<and>
        (cr_warning (?rows ! i) = gas_sharing_warning
           \<longleftrightarrow> \<not> end_mbar (cylinder ?dive1 (int i)) < 10000 \<and>
               of_int (end_mbar (cylinder ?dive1 (int i))) / 1000
                 * of_int (type_size_mliter (cylinder ?dive1 (int i)))
                 / gas_compressibility_factor metric_env (gasmix (cylinder ?dive1 (int i)))
                     (of_int (end_mbar (cylinder ?dive1 (int i))) / 1000)
               < of_int (deco_gas_used_mliter (cylinder ?dive1 (int i))))"
    using rule by blast
  have w0: "cr_warning (?rows ! 0) = more_gas_warning"
    using warn [THEN spec, of 0] pos(1) sized(1) low by blast
  have w1: "cr_warning (?rows ! 1) = gas_sharing_warning"
    using warn [THEN spec, of 1] pos(2) sized(2) reserve by blast
  have w2: "cr_warning (?rows ! 2) = []"
    by code_simp
  have "map cr_warning ?rows = [cr_warning (?rows ! 0), cr_warning (?rows ! 1), cr_warning (?rows ! 2)]"
    by (rule map_three [OF three])
  then show ?thesis
    using w0 w1 w2 by simp
qed

subsection \<open>Minimum gas\<close>




subsection \<open>Warnings for pO2\<close>




subsection \<open>ICD entries\<close>





















text \<open>
  The block of 10000 bytes holds the head of the table (307 bytes) and 22 rows of 432
  bytes.  On an ascent with 22 changes between two trimix cylinders every row is in the
  table; with 23 changes the last row is cut, the table still has 22 rows, and the
  closing tag of line 541 is written beyond the end of the block.
\<close>

lemma icd_buffer_capacity:
  "length icd_header = 307 \<and>
   map_sum id (\<lambda>(entries, warning, state). (length entries, state))
     (plan_icd metric_env (planner_prefs False 1400 1600) two_trimix_dive (ladder 23))
     = Inr (22, Intact) \<and>
   map_sum id (\<lambda>(entries, warning, state). (length entries, state))
     (plan_icd metric_env (planner_prefs False 1400 1600) two_trimix_dive (ladder 24))
     = Inr (22, Overrun)"
  by code_simp

text \<open>
  In the verbatim plan \<open>lastprintgasmix\<close> is assigned at a gas switch only (line 379),
  so that at the first switch of a plan it still has its initial value.  For the dive to
  45 m on trimix 18/45 with a change to nitrox 32 at 21 m, the collapsed plan records
  the change and the verbatim plan, which prints the switch, records nothing.
\<close>

lemma first_switch_of_verbatim_plan:
  "plan_icd metric_env (planner_prefs False 1400 1600) trimix_dive
     [waypoint 180 45000 0 True, waypoint 1200 45000 0 True, waypoint 1500 21000 0 False,
      waypoint 1680 21000 1 False, waypoint 1800 0 1 False]
     = Inr ([trimix_to_nitrox_at_21m], True, Intact) \<and>
   plan_icd metric_env (planner_prefs True 1400 1600) trimix_dive
     [waypoint 180 45000 0 True, waypoint 1200 45000 0 True, waypoint 1500 21000 0 False,
      waypoint 1680 21000 1 False, waypoint 1800 0 1 False]
     = Inr ([], False, Intact) \<and>
   map_sum id (\<lambda>lines. Switch_Gas_Line \<lparr> o2 = 320, he = 0 \<rparr> 0 \<in> set lines)
     (plan_lines metric_env (planner_prefs True 1400 1600) trimix_dive
        [waypoint 180 45000 0 True, waypoint 1200 45000 0 True, waypoint 1500 21000 0 False,
         waypoint 1680 21000 1 False, waypoint 1800 0 1 False])
     = Inr True"
  by code_simp





subsection \<open>A stay at one depth and the final ascent\<close>
















subsection \<open>Further facts about the loops\<close>

text \<open>An iteration of the leg loop fails exactly when a waypoint that is not skipped
  was entered by hand and no waypoint with a time follows it.\<close>

lemma plan_step_fails_iff:
  "plan_step E P dive d rest st = Inl e \<longleftrightarrow>
     time d \<noteq> 0 \<and> \<not> skip_uninteresting E dive st d (skip_zero_time rest) \<and>
     \<not> skip_short E dive st d rest (skip_zero_time rest) \<and>
     entered d \<and> skip_zero_time rest = []"
  by (cases e) (auto simp: plan_step_def last_entered_test_def Let_def split: list.splits)

text \<open>\<open>lastbottomdp\<close> changes only to an entered waypoint whose next waypoint with
  a time was not entered.\<close>

lemma lastbottomdp_step:
  assumes "plan_step E P dive d rest st = Inr st'"
  shows "lastbottomdp st' = lastbottomdp st \<or>
         (lastbottomdp st' = d # rest \<and> entered d \<and>
          (case skip_zero_time rest of [] \<Rightarrow> False | n # _ \<Rightarrow> \<not> entered n))"
proof (cases "time d = 0 \<or> skip_uninteresting E dive st d (skip_zero_time rest)
              \<or> skip_short E dive st d rest (skip_zero_time rest)")
  case True
  then have "st' = st" using assms by (auto simp: plan_step_def Let_def split: if_splits)
  then show ?thesis by simp
next
  case False
  then obtain b where b: "last_entered_test d (skip_zero_time rest) = Inr b"
    using assms by (auto simp: plan_step_def Let_def split: sum.splits if_splits)
  define st1 where "st1 = (if b then st \<lparr> lastbottomdp := d # rest \<rparr> else st)"
  have keep: "lastbottomdp (print_verbatim E P dive s d rest nextdp) = lastbottomdp s"
    "lastbottomdp (switch_gas_verbatim E dive s d nextdp) = lastbottomdp s"
    "lastbottomdp (fst (print_collapsed E P dive s d rest nextdp)) = lastbottomdp s"
    for s nextdp
    by (simp_all add: print_verbatim_def switch_gas_verbatim_def print_collapsed_def
        record_icd_def Let_def)
  have "lastbottomdp st' = lastbottomdp st1"
    using assms False b by (auto simp: plan_step_def Let_def st1_def keep)
  moreover have "b \<longrightarrow> entered d \<and>
      (case skip_zero_time rest of [] \<Rightarrow> False | n # _ \<Rightarrow> \<not> entered n)"
    using b by (auto simp: last_entered_test_def split: if_splits list.splits)
  ultimately show ?thesis by (auto simp: st1_def)
qed

end
